theory Spec2Isabelle
  imports Main
begin

section \<open>The environment: byte strings, the socket, exceptions\<close>

text \<open>
  A shallow embedding of the transfer protocol engine of the repository
  (\<^verbatim>\<open>src/receiver.py\<close>, \<^verbatim>\<open>src/sender.py\<close>, \<^verbatim>\<open>src/utils.py\<close>).

  Python's \<^verbatim>\<open>bytes\<close> and \<^verbatim>\<open>str\<close> are both modelled as \<open>string\<close> (a list of
  8-bit characters). Every function of the source that touches the socket, the file
  system or the screen becomes a function from a \<open>world\<close> to a result and a new
  \<open>world\<close>; an exception is the result \<open>Inl e\<close>.
\<close>

type_synonym bytes = string
type_synonym path = string

text \<open>
  The exceptions of the source, by the classes its \<^verbatim>\<open>except\<close> clauses tell apart.
  In Python 3 \<^verbatim>\<open>socket.timeout\<close> is a subclass of \<^verbatim>\<open>socket.error\<close>, which is
  \<^verbatim>\<open>OSError\<close>, which is a subclass of \<^verbatim>\<open>Exception\<close>. \<open>OSError\<close> carries the
  \<^verbatim>\<open>errno\<close> (or \<^verbatim>\<open>winerror\<close>) when there is one, and the text of \<^verbatim>\<open>str(e)\<close>.
\<close>

datatype exn =
    SocketTimeout string
  | ConnectionRefusedError "nat option" string
  | OSError "nat option" string
  | KeyError string
  | ValueError string
  | Exception string

text \<open>What the network does to one \<^verbatim>\<open>recv\<close> or \<^verbatim>\<open>send\<close> call that fails.\<close>

datatype net_fault = TimedOut | Refused | NetError "nat option" string

fun raise_fault :: "net_fault \<Rightarrow> exn" where
  "raise_fault TimedOut = SocketTimeout ''timed out''"
| "raise_fault Refused = ConnectionRefusedError (Some 111) ''Connection refused''"
| "raise_fault (NetError code msg) = OSError code msg"

text \<open>\<^verbatim>\<open>str(e)\<close> of an exception.\<close>

fun exn_str :: "exn \<Rightarrow> string" where
  "exn_str (SocketTimeout m) = m"
| "exn_str (ConnectionRefusedError code m) = m"
| "exn_str (OSError code m) = m"
| "exn_str (KeyError k) = k"
| "exn_str (ValueError m) = m"
| "exn_str (Exception m) = m"

text \<open>
  The classes the \<^verbatim>\<open>except\<close> clauses ask for: \<^verbatim>\<open>socket.timeout\<close>, and
  \<^verbatim>\<open>socket.error\<close> (every \<^verbatim>\<open>OSError\<close>, so a timeout and a refused connection too).
\<close>

fun is_timeout :: "exn \<Rightarrow> bool" where
  "is_timeout (SocketTimeout m) = True"
| "is_timeout e = False"

fun is_oserror :: "exn \<Rightarrow> bool" where
  "is_oserror (SocketTimeout m) = True"
| "is_oserror (ConnectionRefusedError code m) = True"
| "is_oserror (OSError code m) = True"
| "is_oserror e = False"

text \<open>
  \<^verbatim>\<open>getattr(e, 'winerror', getattr(e, 'errno', 'unknown'))\<close>: the code of an
  \<^verbatim>\<open>OSError\<close>, \<open>None\<close> when the exception was built from a message alone.
\<close>

fun error_code :: "exn \<Rightarrow> nat option" where
  "error_code (OSError code m) = code"
| "error_code (ConnectionRefusedError code m) = code"
| "error_code e = None"

text \<open>Decimal digits of a number, as an f-string prints it.\<close>

function show_nat :: "nat \<Rightarrow> string" where
  "show_nat n =
     (if n < 10 then [''0123456789'' ! n]
      else show_nat (n div 10) @ [''0123456789'' ! (n mod 10)])"
  by pat_completeness auto
termination
  by (relation "measure id") auto

declare show_nat.simps [simp del]

fun show_code :: "nat option \<Rightarrow> string" where
  "show_code None = ''None''"
| "show_code (Some n) = show_nat n"

text \<open>
  What the peer delivers, in order: a segment of bytes, or a fault that the next
  \<^verbatim>\<open>recv\<close> raises. An empty \<open>inbox\<close> is a stream the peer has closed:
  \<^verbatim>\<open>recv\<close> returns \<^verbatim>\<open>b''\<close>.
\<close>

datatype sock_event = Data bytes | RecvFault net_fault

text \<open>The operations on the file system that can fail, as the fault oracle names them.\<close>

datatype fs_op =
    OpEnsureDir path
  | OpDiskUsage path
  | OpMkstemp path
  | OpMkdtemp path
  | OpOpen path
  | OpWrite path nat
  | OpGetsize path
  | OpHash path
  | OpMove path path
  | OpRemove path
  | OpRmtree path

text \<open>The messages the engines show, by the source line that shows them.\<close>

datatype ui_msg =
    TransferCompleted
  | TransferFailed
  | HashMismatchSkipping
  | HashMismatchScreen
  | TimeoutFromClient
  | ForciblyClosed
  | NetworkErrorFrom
  | ErrorHandlingClient
  | FileReceivedVerified
  | FileReceivedIntegrityFailed
  | ErrorReceivingFile
  | InsufficientDiskSpace
  | CouldNotVerifyDiskSpace
  | ErrorReceivingEntry nat
  | DirectoryReceived
  | DirectoryReceivedNoFinalAck
  | TimeoutDuringDirectory
  | FileSystemError
  | ErrorReceivingDirectory
  | FileNotFound
  | FileSent
  | ConnectionTimeout
  | ConnectionRefused
  | NetworkError
  | ErrorSendingFile
  | DirectoryNotFound
  | NoFilesFound
  | DirectorySent
  | FileAccessError
  | ErrorSendingDirectory

text \<open>
  The trace: every effect of a run, in the order it happened. \<open>EvRecv n r\<close> is one
  \<^verbatim>\<open>sock.recv(n)\<close> and what it gave; \<open>EvSend b r\<close> is one \<^verbatim>\<open>sock.send(b)\<close> or
  \<^verbatim>\<open>sock.sendall(b)\<close> and whether it failed; \<open>EvGetsize p n\<close> is one
  \<^verbatim>\<open>os.path.getsize(p)\<close> that returned \<open>n\<close>.
\<close>

datatype event =
    EvConnect
  | EvSetTimeout "nat option"
  | EvRecv nat "net_fault + bytes"
  | EvSend bytes "net_fault option"
  | EvClose
  | EvHash path
  | EvFs fs_op bool
  | EvGetsize path nat
  | EvUi ui_msg

text \<open>An entry of the shared \<^verbatim>\<open>failed_validations\<close> list.\<close>

record validation =
  v_file :: path
  v_expected :: string
  v_received :: string

record world =
  inbox :: "sock_event list"
  send_faults :: "net_fault option list"
  so_timeout :: "nat option"
  files :: "path \<Rightarrow> bytes option"
  dirs :: "path list"
  fs_faults :: "fs_op list"
  free_space :: "nat option"
  tmp_names :: "string list"
  failed_validations :: "validation list"
  trace :: "event list"

definition emit :: "event \<Rightarrow> world \<Rightarrow> world" where
  "emit e w = w\<lparr>trace := trace w @ [e]\<rparr>"

text \<open>
  \<^verbatim>\<open>sock.recv(n)\<close>: at most \<open>n\<close> bytes of the segment at the head of the inbox; what
  is left of the segment stays at the head.
\<close>

definition sock_recv :: "nat \<Rightarrow> world \<Rightarrow> (exn + bytes) \<times> world" where
  "sock_recv n w =
     (case inbox w of
        [] \<Rightarrow> (Inr [], emit (EvRecv n (Inr [])) w)
      | Data bs # rest \<Rightarrow>
          (Inr (take n bs),
           emit (EvRecv n (Inr (take n bs)))
             (w\<lparr>inbox := (if length bs \<le> n then rest else Data (drop n bs) # rest)\<rparr>))
      | RecvFault f # rest \<Rightarrow>
          (Inl (raise_fault f), emit (EvRecv n (Inl f)) (w\<lparr>inbox := rest\<rparr>)))"

text \<open>
  \<^verbatim>\<open>sock.send(b)\<close> and \<^verbatim>\<open>sock.sendall(b)\<close>: the head of \<open>send_faults\<close> says
  whether this call fails; an empty list is a network that takes everything.
\<close>

definition sock_send :: "bytes \<Rightarrow> world \<Rightarrow> (exn + unit) \<times> world" where
  "sock_send b w =
     (case send_faults w of
        [] \<Rightarrow> (Inr (), emit (EvSend b None) w)
      | None # rest \<Rightarrow> (Inr (), emit (EvSend b None) (w\<lparr>send_faults := rest\<rparr>))
      | Some f # rest \<Rightarrow>
          (Inl (raise_fault f), emit (EvSend b (Some f)) (w\<lparr>send_faults := rest\<rparr>)))"

definition sock_settimeout :: "nat option \<Rightarrow> world \<Rightarrow> world" where
  "sock_settimeout t w = emit (EvSetTimeout t) (w\<lparr>so_timeout := t\<rparr>)"

text \<open>A world in which nothing has happened yet and nothing fails: for evaluating runs.\<close>

definition quiet_world :: world where
  "quiet_world =
     \<lparr>inbox = [], send_faults = [], so_timeout = None, files = (\<lambda>p. None), dirs = [],
      fs_faults = [], free_space = None, tmp_names = [], failed_validations = [],
      trace = []\<rparr>"

section \<open>The configuration, the manifest and the file system\<close>

text \<open>
  What a JSON manifest carries, as the engines read it: a key can be absent
  (\<open>None\<close>), and reading it with \<^verbatim>\<open>metadata['key']\<close> then raises \<^verbatim>\<open>KeyError\<close>.
  An entry of a directory manifest has its path and size; its hash is optional
  (\<^verbatim>\<open>'hash' in file_info\<close>).
\<close>

record file_entry =
  fe_path :: path
  fe_size :: nat
  fe_hash :: "string option"

record metadata =
  m_type :: "string option"
  m_name :: "string option"
  m_size :: "nat option"
  m_hash :: "string option"
  m_hash_algorithm :: "string option"
  m_total_files :: "nat option"
  m_total_size :: "nat option"
  m_files :: "file_entry list option"

text \<open>
  \<^verbatim>\<open>config.json\<close> is not among the sources: its values are parameters. So are the
  library functions the engines call on data: \<^verbatim>\<open>hashlib.new(name)\<close> (\<open>None\<close> for a
  name it does not know, otherwise the function from a content to its hex digest),
  \<^verbatim>\<open>json.loads\<close> (\<open>None\<close> for bytes that are no JSON object) and \<^verbatim>\<open>json.dumps\<close>.
\<close>

record config =
  BUFFER_SIZE :: nat
  RECEIVED_DIR :: path
  HASH_ALGORITHM :: string
  SKIP_HASH_VERIFICATION :: bool
  TYPE_FILE :: string
  TYPE_DIRECTORY :: string
  hashlib_new :: "string \<Rightarrow> (bytes \<Rightarrow> string) option"
  json_loads :: "bytes \<Rightarrow> metadata option"
  json_dumps :: "metadata \<Rightarrow> bytes"

definition faulty :: "fs_op \<Rightarrow> world \<Rightarrow> bool" where
  "faulty op w = (op \<in> set (fs_faults w))"

text \<open>\<^verbatim>\<open>os.path.join\<close> of two parts, \<^verbatim>\<open>os.path.basename\<close> and \<^verbatim>\<open>os.path.dirname\<close> (POSIX).\<close>

definition path_join :: "path \<Rightarrow> path \<Rightarrow> path" where
  "path_join a b =
     (if take 1 b = ''/'' then b
      else if a = [] \<or> take 1 (rev a) = ''/'' then a @ b
      else a @ ''/'' @ b)"

definition basename :: "path \<Rightarrow> path" where
  "basename p = rev (takeWhile (\<lambda>c. c \<noteq> CHR ''/'') (rev p))"

definition dirname :: "path \<Rightarrow> path" where
  "dirname p =
     (let head = rev (dropWhile (\<lambda>c. c \<noteq> CHR ''/'') (rev p));
          stripped = rev (dropWhile (\<lambda>c. c = CHR ''/'') (rev head))
      in if stripped = [] then head else stripped)"

definition path_exists :: "path \<Rightarrow> world \<Rightarrow> bool" where
  "path_exists p w = (files w p \<noteq> None \<or> p \<in> set (dirs w))"

text \<open>
  \<^verbatim>\<open>utils.ensure_directory\<close>, by its outcomes: nothing for an empty path; otherwise the
  directory exists and is writable afterwards, or an exception is raised.
\<close>

definition ensure_directory :: "path \<Rightarrow> world \<Rightarrow> (exn + unit) \<times> world" where
  "ensure_directory p w =
     (if p = [] then (Inr (), w)
      else if faulty (OpEnsureDir p) w then
        (Inl (OSError None ''Cannot create directory''), emit (EvFs (OpEnsureDir p) False) w)
      else (Inr (), emit (EvFs (OpEnsureDir p) True) (w\<lparr>dirs := List.insert p (dirs w)\<rparr>)))"


text \<open>\<^verbatim>\<open>f.write(chunk)\<close> on the file at \<open>p\<close>, with \<open>off\<close> bytes written so far.\<close>

definition file_write :: "path \<Rightarrow> nat \<Rightarrow> bytes \<Rightarrow> world \<Rightarrow> (exn + unit) \<times> world" where
  "file_write p off chunk w =
     (if faulty (OpWrite p off) w then
        (Inl (OSError (Some 28) ''No space left on device''), emit (EvFs (OpWrite p off) False) w)
      else
        (Inr (),
         emit (EvFs (OpWrite p off) True)
           (w\<lparr>files := (files w)(p \<mapsto> (case files w p of None \<Rightarrow> [] | Some c \<Rightarrow> c) @ chunk)\<rparr>)))"





section \<open>utils.py: calculate_file_hash\<close>

text \<open>
  \<^verbatim>\<open>
  def calculate_file_hash(filepath):
      try:
          hash_func = hashlib.new(HASH_ALGORITHM)
      except ValueError:
          raise ValueError(f"Unsupported hash algorithm: {HASH_ALGORITHM}")
      with open(filepath, "rb") as f:
          for chunk in iter(lambda: f.read(HASH_CHUNK_SIZE), b""):
              hash_func.update(chunk)
      return hash_func.hexdigest()
  \<close>
  Feeding a digest chunk by chunk gives the digest of the whole content. \<open>EvHash\<close> marks
  the return of the function.
\<close>

definition calculate_file_hash :: "config \<Rightarrow> path \<Rightarrow> world \<Rightarrow> (exn + string) \<times> world" where
  "calculate_file_hash cfg filepath w =
     (case hashlib_new cfg (HASH_ALGORITHM cfg) of
        None \<Rightarrow> (Inl (ValueError ''Unsupported hash algorithm''), w)
      | Some hash_func \<Rightarrow>
          (case (if faulty (OpHash filepath) w then None else files w filepath) of
             None \<Rightarrow>
               (Inl (OSError (Some 2) ''No such file or directory''),
                emit (EvFs (OpHash filepath) False) w)
           | Some content \<Rightarrow> (Inr (hash_func content), emit (EvHash filepath) w)))"

section \<open>receiver.py: recv_exact\<close>

text \<open>
  \<^verbatim>\<open>
  def recv_exact(sock, size):
      data = b''
      while len(data) < size:
          chunk = sock.recv(size - len(data))
          if not chunk:
              return None
          data += chunk
      return data
  \<close>
  The loop, with \<open>data\<close> as its accumulator. It ends because every round that goes on
  has added at least one byte.
\<close>

function recv_exact_loop :: "nat \<Rightarrow> bytes \<Rightarrow> world \<Rightarrow> (exn + bytes option) \<times> world" where
  "recv_exact_loop sz data w =
     (if length data < sz then
        (case sock_recv (sz - length data) w of
           (Inl e, w') \<Rightarrow> (Inl e, w')
         | (Inr chunk, w') \<Rightarrow>
             if chunk = [] then (Inr None, w')
             else recv_exact_loop sz (data @ chunk) w')
      else (Inr (Some data), w))"
  by pat_completeness auto
termination
  by (relation "measure (\<lambda>(sz, data, w). sz - length data)") (auto simp: neq_Nil_conv)

declare recv_exact_loop.simps [simp del]

definition recv_exact :: "nat \<Rightarrow> world \<Rightarrow> (exn + bytes option) \<times> world" where
  "recv_exact sz w = recv_exact_loop sz [] w"

text \<open>
  The bytes that reads can still get from an inbox before the stream ends: the segments
  up to the first empty read or fault.
\<close>

fun avail :: "sock_event list \<Rightarrow> bytes" where
  "avail [] = []"
| "avail (Data bs # rest) = (if bs = [] then [] else bs @ avail rest)"
| "avail (RecvFault f # rest) = []"

section \<open>receiver.py: _verify_file_hash and receive_file\<close>

text \<open>
  \<^verbatim>\<open>
  def _verify_file_hash(filepath, expected_hash, failed_validations, validation_lock, ui):
      if SKIP_HASH_VERIFICATION:
          return True
      ...
      received_hash = calculate_file_hash(filepath)
      if received_hash == expected_hash:
          return True
      else:
          with validation_lock:
              failed_validations.append({
                  'file': filepath,
                  'expected': expected_hash[:16] + '...',
                  'received': received_hash[:16] + '...'
              })
          return False
  \<close>
\<close>

definition verify_file_hash :: "config \<Rightarrow> path \<Rightarrow> string \<Rightarrow> world \<Rightarrow> (exn + bool) \<times> world" where
  "verify_file_hash cfg filepath expected_hash w =
     (if SKIP_HASH_VERIFICATION cfg then (Inr True, w)
      else
        (case calculate_file_hash cfg filepath w of
           (Inl e, w1) \<Rightarrow> (Inl e, w1)
         | (Inr received_hash, w1) \<Rightarrow>
             if received_hash = expected_hash then (Inr True, w1)
             else
               (Inr False,
                w1\<lparr>failed_validations := failed_validations w1 @
                  [\<lparr>v_file = filepath,
                    v_expected = take 16 expected_hash @ ''...'',
                    v_received = take 16 received_hash @ ''...''\<rparr>]\<rparr>)))"






section \<open>sender.py: _receive_acknowledgment\<close>

text \<open>
  \<^verbatim>\<open>sender.py\<close> defines \<^verbatim>\<open>_receive_acknowledgment\<close> twice, at lines 48 and 348. A
  later \<^verbatim>\<open>def\<close> rebinds the module's name, and \<^verbatim>\<open>send_file\<close> and
  \<^verbatim>\<open>send_directory\<close> look the name up when they run: they call the second definition,
  which is the one modelled here.
  \<^verbatim>\<open>
  def _receive_acknowledgment(sock, expected_responses, timeout=30):
      try:
          original_timeout = sock.gettimeout()
          sock.settimeout(timeout)
          max_length = min(max(len(resp) for resp in expected_responses), 1024)
          response = sock.recv(max_length)
          if original_timeout is not None:
              sock.settimeout(original_timeout)
          for expected in expected_responses:
              if response.startswith(expected):
                  return True, expected
          return False, response
      except socket.timeout:
          return False, b'TIMEOUT'
      except socket.error as e:
          error_code = getattr(e, 'winerror', getattr(e, 'errno', 'unknown'))
          return False, f"SOCKET_ERROR_{error_code}_{str(e)}".encode()
      except Exception as e:
          return False, str(e).encode()
      finally:
          try:
              if original_timeout is not None:
                  sock.settimeout(original_timeout)
          except:
              pass
  \<close>
\<close>

definition startswith :: "bytes \<Rightarrow> bytes \<Rightarrow> bool" where
  "startswith response expected = (take (length expected) response = expected)"

text \<open>The \<^verbatim>\<open>for expected in expected_responses\<close> loop: the first token that matches.\<close>

fun first_match :: "bytes list \<Rightarrow> bytes \<Rightarrow> bytes option" where
  "first_match [] response = None"
| "first_match (expected # rest) response =
     (if startswith response expected then Some expected else first_match rest response)"

text \<open>\<^verbatim>\<open>max(len(resp) for resp in expected_responses)\<close>, for a list that is not empty.\<close>

definition max_len :: "bytes list \<Rightarrow> nat" where
  "max_len expected_responses = foldr max (map length expected_responses) 0"

text \<open>The restore, in the body and again in \<^verbatim>\<open>finally\<close>: only a timeout that is not \<^verbatim>\<open>None\<close>.\<close>

definition restore_timeout :: "nat option \<Rightarrow> world \<Rightarrow> world" where
  "restore_timeout original_timeout w =
     (case original_timeout of
        None \<Rightarrow> w
      | Some t \<Rightarrow> sock_settimeout (Some t) w)"

text \<open>
  \<^verbatim>\<open>max\<close> of an empty sequence raises \<^verbatim>\<open>ValueError\<close> (the text is CPython's), which
  the last \<^verbatim>\<open>except\<close> clause turns into a failure.
\<close>

definition receive_acknowledgment ::
  "bytes list \<Rightarrow> nat \<Rightarrow> world \<Rightarrow> (bool \<times> bytes) \<times> world" where
  "receive_acknowledgment expected_responses timeout w =
     (let original_timeout = so_timeout w;
          w1 = sock_settimeout (Some timeout) w
      in if expected_responses = [] then
           ((False, ''max() arg is an empty sequence''), restore_timeout original_timeout w1)
         else
           (case sock_recv (min (max_len expected_responses) 1024) w1 of
              (Inr response, w2) \<Rightarrow>
                (let w3 = restore_timeout original_timeout w2 in
                 case first_match expected_responses response of
                   Some expected \<Rightarrow> ((True, expected), restore_timeout original_timeout w3)
                 | None \<Rightarrow> ((False, response), restore_timeout original_timeout w3))
            | (Inl e, w2) \<Rightarrow>
                ((False,
                  if is_timeout e then ''TIMEOUT''
                  else if is_oserror e then
                    ''SOCKET_ERROR_'' @ show_code (error_code e) @ ''_'' @ exn_str e
                  else exn_str e),
                 restore_timeout original_timeout w2)))"

section \<open>Properties of recv_exact\<close>

lemma sock_recv_length:
  "sock_recv n w = (Inr chunk, w') \<Longrightarrow> length chunk \<le> n"
  by (auto simp: sock_recv_def split: list.splits sock_event.splits)

lemma sock_recv_avail:
  assumes "sock_recv n w = (Inr chunk, w')" and "0 < n"
  shows "(chunk = [] \<longrightarrow> avail (inbox w) = [])
       \<and> (chunk \<noteq> [] \<longrightarrow> length (avail (inbox w)) \<le> length chunk + length (avail (inbox w')))"
  using assms
  by (auto simp: sock_recv_def emit_def split: list.splits sock_event.splits if_splits)

lemma recv_exact_loop_Some:
  "recv_exact_loop sz data w = (Inr (Some d), w') \<Longrightarrow> length data \<le> sz
     \<Longrightarrow> length d = sz"
proof (induction sz data w rule: recv_exact_loop.induct)
  case (1 sz data w)
  note recv_exact_loop.simps [of sz data w, simp]
  show ?case
  proof (cases "length data < sz")
    case False
    with "1.prems" show ?thesis by simp
  next
    case True
    obtain r w1 where r: "sock_recv (sz - length data) w = (r, w1)"
      by (cases "sock_recv (sz - length data) w")
    show ?thesis
    proof (cases r)
      case (Inl e)
      with True r "1.prems" show ?thesis by simp
    next
      case (Inr chunk)
      with r have len: "length chunk \<le> sz - length data"
        by (simp add: sock_recv_length)
      from True r Inr "1.prems"(1) have ne: "chunk \<noteq> []"
        by (auto split: if_splits)
      with True r Inr "1.prems"(1)
      have rec: "recv_exact_loop sz (data @ chunk) w1 = (Inr (Some d), w')"
        by simp
      from len True have "length (data @ chunk) \<le> sz" by simp
      with "1.IH" [OF True r [symmetric] Inr ne rec] show ?thesis .
    qed
  qed
qed

lemma recv_exact_loop_None:
  "recv_exact_loop sz data w = (Inr None, w')
     \<Longrightarrow> length data + length (avail (inbox w)) < sz"
proof (induction sz data w rule: recv_exact_loop.induct)
  case (1 sz data w)
  note recv_exact_loop.simps [of sz data w, simp]
  show ?case
  proof (cases "length data < sz")
    case False
    with "1.prems" show ?thesis by simp
  next
    case True
    obtain r w1 where r: "sock_recv (sz - length data) w = (r, w1)"
      by (cases "sock_recv (sz - length data) w")
    show ?thesis
    proof (cases r)
      case (Inl e)
      with True r "1.prems" show ?thesis by simp
    next
      case (Inr chunk)
      from True have pos: "0 < sz - length data" by simp
      note av = sock_recv_avail [OF r [unfolded Inr] pos]
      show ?thesis
      proof (cases "chunk = []")
        case True
        with av \<open>length data < sz\<close> show ?thesis by simp
      next
        case False
        with True r Inr "1.prems"
        have rec: "recv_exact_loop sz (data @ chunk) w1 = (Inr None, w')"
          by simp
        from "1.IH" [OF True r [symmetric] Inr False rec]
        have "length (data @ chunk) + length (avail (inbox w1)) < sz" .
        with av False show ?thesis by simp
      qed
    qed
  qed
qed

text \<open>
  C9. \<^verbatim>\<open>recv_exact\<close> always returns (the model is a total function), and what it
  returns is all or nothing: for size 0 it returns the empty byte string and does not
  touch the socket (no read is in the trace, the world is unchanged); a byte string it
  returns has exactly \<open>size\<close> bytes; and it returns \<open>None\<close> only when the peer's stream
  ends before \<open>size\<close> bytes have arrived. The third outcome of the source, an exception
  raised by \<^verbatim>\<open>recv\<close>, is no return value.
\<close>

theorem recv_exact_all_or_nothing:
  "recv_exact 0 w = (Inr (Some []), w)
   \<and> (fst (recv_exact sz w) = Inr (Some d) \<longrightarrow> length d = sz)
   \<and> (fst (recv_exact sz w) = Inr None \<longrightarrow> length (avail (inbox w)) < sz)"
proof (intro conjI impI)
  show "recv_exact 0 w = (Inr (Some []), w)"
    by (simp add: recv_exact_def recv_exact_loop.simps)
next
  assume "fst (recv_exact sz w) = Inr (Some d)"
  then have "recv_exact_loop sz [] w = (Inr (Some d), snd (recv_exact sz w))"
    by (simp add: recv_exact_def prod_eq_iff)
  then show "length d = sz"
    using recv_exact_loop_Some [of sz "[]" w d] by simp
next
  assume "fst (recv_exact sz w) = Inr None"
  then have "recv_exact_loop sz [] w = (Inr None, snd (recv_exact sz w))"
    by (simp add: recv_exact_def prod_eq_iff)
  then show "length (avail (inbox w)) < sz"
    using recv_exact_loop_None [of sz "[]" w] by simp
qed

theorem recv_exact_all_or_nothing_witness:
  "fst (recv_exact 4 (quiet_world\<lparr>inbox := [Data ''ab'', Data ''cde'']\<rparr>)) = Inr (Some ''abcd'')
   \<and> length ''abcd'' = (4::nat)
   \<and> fst (recv_exact 4 (quiet_world\<lparr>inbox := [Data ''ab'']\<rparr>)) = Inr None
   \<and> length (avail (inbox (quiet_world\<lparr>inbox := [Data ''ab'']\<rparr>))) < (4::nat)"
proof -
  have a: "fst (recv_exact 4 (quiet_world\<lparr>inbox := [Data ''ab'', Data ''cde'']\<rparr>)) = Inr (Some ''abcd'')"
    by (simp add: recv_exact_def recv_exact_loop.simps sock_recv_def emit_def quiet_world_def)
  have b: "fst (recv_exact 4 (quiet_world\<lparr>inbox := [Data ''ab'']\<rparr>)) = Inr None"
    by (simp add: recv_exact_def recv_exact_loop.simps sock_recv_def emit_def quiet_world_def)
  from a b
    recv_exact_all_or_nothing [of "quiet_world\<lparr>inbox := [Data ''ab'', Data ''cde'']\<rparr>" 4 "''abcd''"]
    recv_exact_all_or_nothing [of "quiet_world\<lparr>inbox := [Data ''ab'']\<rparr>" 4]
  show ?thesis by blast
qed

section \<open>Properties of _receive_acknowledgment\<close>

lemma first_match_Some:
  "first_match es r = Some e \<Longrightarrow> e \<in> set es \<and> startswith r e"
  by (induction es) (auto split: if_splits)

lemma first_match_None:
  "first_match es r = None \<longleftrightarrow> (\<forall>e \<in> set es. \<not> startswith r e)"
  by (induction es) auto

lemma max_len_Max:
  "es \<noteq> [] \<Longrightarrow> max_len es = Max (length ` set es)"
proof (induction es)
  case Nil
  then show ?case by simp
next
  case (Cons e es)
  show ?case
  proof (cases "es = []")
    case True
    then show ?thesis by (simp add: max_len_def)
  next
    case False
    with Cons.IH have "max_len es = Max (length ` set es)" by simp
    with False show ?thesis by (simp add: max_len_def)
  qed
qed

lemma restore_timeout_trace:
  "\<exists>evs. trace (restore_timeout orig w) = trace w @ evs \<and> set evs \<subseteq> {EvSetTimeout orig}"
  by (cases orig) (auto simp: restore_timeout_def sock_settimeout_def emit_def)

lemma restore_timeout_so_timeout:
  "so_timeout (restore_timeout orig w) = (case orig of None \<Rightarrow> so_timeout w | Some t \<Rightarrow> Some t)"
  by (cases orig) (auto simp: restore_timeout_def sock_settimeout_def emit_def)

lemma sock_recv_effect:
  "\<exists>res. trace (snd (sock_recv n w)) = trace w @ [EvRecv n res]
      \<and> so_timeout (snd (sock_recv n w)) = so_timeout w
      \<and> fst (sock_recv n w) = (case res of Inl f \<Rightarrow> Inl (raise_fault f) | Inr bs \<Rightarrow> Inr bs)
      \<and> (\<forall>bs. res = Inr bs \<longrightarrow> length bs \<le> n)"
  by (auto simp: sock_recv_def emit_def split: list.splits sock_event.splits)

lemma restore_timeout_twice:
  "\<exists>evs. trace (restore_timeout orig (restore_timeout orig w)) = trace w @ evs
      \<and> set evs \<subseteq> {EvSetTimeout orig}
      \<and> so_timeout (restore_timeout orig (restore_timeout orig w)) =
          (case orig of None \<Rightarrow> so_timeout w | Some t \<Rightarrow> Some t)"
  by (cases orig) (auto simp: restore_timeout_def sock_settimeout_def emit_def)

lemma restore_timeout_once:
  "\<exists>evs. trace (restore_timeout orig w) = trace w @ evs
      \<and> set evs \<subseteq> {EvSetTimeout orig}
      \<and> so_timeout (restore_timeout orig w) =
          (case orig of None \<Rightarrow> so_timeout w | Some t \<Rightarrow> Some t)"
  by (cases orig) (auto simp: restore_timeout_def sock_settimeout_def emit_def)

text \<open>
  C8, as the code has it. For a list of expected tokens that is not empty, the helper
  sets the timeout it was given, makes exactly one \<^verbatim>\<open>recv\<close>, asking for
  min(length of the longest token, 1024) bytes (and getting no more), and after that
  only restores the timeout. The timeout the socket had before is restored on every
  path when it was a number; a socket that had no timeout (\<^verbatim>\<open>None\<close>, blocking) keeps
  the helper's timeout. The result is a success exactly when the bytes received start
  with an expected token, and then carries the first such token of the list; a failure
  carries \<^verbatim>\<open>TIMEOUT\<close> after a timeout, the bytes received when they match no token,
  and the text \<^verbatim>\<open>SOCKET_ERROR_<code>_<message>\<close> after any other socket error.
\<close>

theorem receive_acknowledgment_contract:
  assumes ne: "expected_responses \<noteq> []"
  shows "\<exists>res restores.
      trace (snd (receive_acknowledgment expected_responses t w)) =
        trace w @ [EvSetTimeout (Some t),
                   EvRecv (min (Max (length ` set expected_responses)) 1024) res] @ restores
    \<and> (\<forall>bs. res = Inr bs \<longrightarrow> length bs \<le> min (Max (length ` set expected_responses)) 1024)
    \<and> set restores \<subseteq> {EvSetTimeout (so_timeout w)}
    \<and> so_timeout (snd (receive_acknowledgment expected_responses t w)) =
        (case so_timeout w of None \<Rightarrow> Some t | Some orig \<Rightarrow> Some orig)
    \<and> (fst (fst (receive_acknowledgment expected_responses t w)) \<longleftrightarrow>
         (\<exists>response. res = Inr response
            \<and> (\<exists>expected \<in> set expected_responses. startswith response expected)))
    \<and> fst (receive_acknowledgment expected_responses t w) =
        (case res of
           Inr response \<Rightarrow>
             (case first_match expected_responses response of
                Some expected \<Rightarrow> (True, expected)
              | None \<Rightarrow> (False, response))
         | Inl TimedOut \<Rightarrow> (False, ''TIMEOUT'')
         | Inl f \<Rightarrow>
             (False, ''SOCKET_ERROR_'' @ show_code (error_code (raise_fault f)) @ ''_''
                       @ exn_str (raise_fault f)))"
proof -
  let ?n = "min (Max (length ` set expected_responses)) 1024"
  let ?w1 = "sock_settimeout (Some t) w"
  let ?orig = "so_timeout w"
  have n: "min (max_len expected_responses) 1024 = ?n"
    using ne by (simp add: max_len_Max)
  have w1: "trace ?w1 = trace w @ [EvSetTimeout (Some t)]" "so_timeout ?w1 = Some t"
    by (simp_all add: sock_settimeout_def emit_def)
  obtain r w2 where rw: "sock_recv ?n ?w1 = (r, w2)"
    by (cases "sock_recv ?n ?w1")
  from sock_recv_effect [of ?n ?w1] rw obtain res where
    tr: "trace w2 = trace ?w1 @ [EvRecv ?n res]" and
    tmo: "so_timeout w2 = so_timeout ?w1" and
    r: "r = (case res of Inl f \<Rightarrow> Inl (raise_fault f) | Inr bs \<Rightarrow> Inr bs)" and
    len: "\<forall>bs. res = Inr bs \<longrightarrow> length bs \<le> ?n"
    by auto
  show ?thesis
  proof (cases res)
    case (Inr response)
    from restore_timeout_twice [of ?orig w2] obtain evs where
      evs: "trace (restore_timeout ?orig (restore_timeout ?orig w2)) = trace w2 @ evs"
        "set evs \<subseteq> {EvSetTimeout ?orig}"
        "so_timeout (restore_timeout ?orig (restore_timeout ?orig w2)) =
           (case ?orig of None \<Rightarrow> so_timeout w2 | Some t \<Rightarrow> Some t)"
      by blast
    have res: "receive_acknowledgment expected_responses t w =
        ((case first_match expected_responses response of
            Some expected \<Rightarrow> (True, expected) | None \<Rightarrow> (False, response)),
         restore_timeout ?orig (restore_timeout ?orig w2))"
      using ne rw r Inr n
      by (simp add: receive_acknowledgment_def Let_def split: option.splits)
    have ok: "fst (case first_match expected_responses response of
            Some expected \<Rightarrow> (True, expected) | None \<Rightarrow> (False, response)) \<longleftrightarrow>
          (\<exists>expected \<in> set expected_responses. startswith response expected)"
      using first_match_None [of expected_responses response]
      by (cases "first_match expected_responses response") auto
    show ?thesis
      apply (rule exI [of _ res], rule exI [of _ evs])
      using res evs tr tmo w1 len Inr ok
      by (simp split: option.splits)
  next
    case (Inl f)
    from restore_timeout_once [of ?orig w2] obtain evs where
      evs: "trace (restore_timeout ?orig w2) = trace w2 @ evs"
        "set evs \<subseteq> {EvSetTimeout ?orig}"
        "so_timeout (restore_timeout ?orig w2) =
           (case ?orig of None \<Rightarrow> so_timeout w2 | Some t \<Rightarrow> Some t)"
      by blast
    have res: "receive_acknowledgment expected_responses t w =
        ((case f of TimedOut \<Rightarrow> (False, ''TIMEOUT'')
          | _ \<Rightarrow> (False, ''SOCKET_ERROR_'' @ show_code (error_code (raise_fault f)) @ ''_''
                       @ exn_str (raise_fault f))),
         restore_timeout ?orig w2)"
      using ne rw r Inl n
      by (cases f) (simp_all add: receive_acknowledgment_def Let_def)
    show ?thesis
      apply (rule exI [of _ res], rule exI [of _ evs])
      using res evs tr tmo w1 len Inl
      by (cases f) (simp_all split: option.splits)
  qed
qed

theorem receive_acknowledgment_contract_witness:
  "[''ACK1'', ''MISMATCH''] \<noteq> ([] :: bytes list)
   \<and> fst (receive_acknowledgment [''ACK1'', ''MISMATCH''] 30
          (quiet_world\<lparr>inbox := [Data ''ACK1''], so_timeout := Some 120\<rparr>)) = (True, ''ACK1'')
   \<and> so_timeout (snd (receive_acknowledgment [''ACK1'', ''MISMATCH''] 30
          (quiet_world\<lparr>inbox := [Data ''ACK1''], so_timeout := Some 120\<rparr>))) = Some 120"
proof -
  let ?w = "quiet_world\<lparr>inbox := [Data ''ACK1''], so_timeout := Some 120\<rparr>"
  have ne: "[''ACK1'', ''MISMATCH''] \<noteq> ([] :: bytes list)" by simp
  from receive_acknowledgment_contract [OF ne, of 30 ?w]
  have "so_timeout (snd (receive_acknowledgment [''ACK1'', ''MISMATCH''] 30 ?w)) =
      (case so_timeout ?w of None \<Rightarrow> Some 30 | Some orig \<Rightarrow> Some orig)"
    by blast
  moreover have "fst (receive_acknowledgment [''ACK1'', ''MISMATCH''] 30 ?w) = (True, ''ACK1'')"
    by (simp add: receive_acknowledgment_def sock_recv_def sock_settimeout_def emit_def
        restore_timeout_def max_len_def startswith_def Let_def)
  ultimately show ?thesis by simp
qed

text \<open>
  C8 as the spec states it fails twice. A socket in blocking mode (timeout \<^verbatim>\<open>None\<close>) does
  not get its setting back: it keeps the 30 seconds of the helper. And a failure after a
  socket error carries neither the timeout marker nor bytes received (none were): it
  carries a text made from the error.
\<close>

theorem receive_acknowledgment_counterexample:
  "so_timeout quiet_world = None
   \<and> so_timeout (snd (receive_acknowledgment [''ACK1'', ''MISMATCH''] 30 quiet_world)) = Some 30
   \<and> fst (receive_acknowledgment [''DONE''] 30
          (quiet_world\<lparr>inbox := [RecvFault (NetError (Some 104) ''Connection reset by peer'')],
             so_timeout := Some 30\<rparr>))
       = (False, ''SOCKET_ERROR_104_Connection reset by peer'')"
  by (simp add: receive_acknowledgment_def sock_recv_def sock_settimeout_def emit_def
      restore_timeout_def max_len_def startswith_def Let_def quiet_world_def show_nat.simps)

section \<open>Properties of receive_file\<close>








text \<open>
  \<open>extends P w w'\<close>: the world \<open>w'\<close> has the trace of \<open>w\<close> and, after it, only events
  that satisfy \<open>P\<close>.
\<close>

definition extends :: "(event \<Rightarrow> bool) \<Rightarrow> world \<Rightarrow> world \<Rightarrow> bool" where
  "extends P w w' \<longleftrightarrow> (\<exists>evs. trace w' = trace w @ evs \<and> list_all P evs)"


lemma extends_trans:
  assumes a: "extends P w w1" and b: "extends P w1 w2"
  shows "extends P w w2"
proof -
  from a obtain evs1 where e1: "trace w1 = trace w @ evs1" "list_all P evs1"
    by (auto simp: extends_def)
  from b obtain evs2 where e2: "trace w2 = trace w1 @ evs2" "list_all P evs2"
    by (auto simp: extends_def)
  from e1 e2 have "trace w2 = trace w @ (evs1 @ evs2) \<and> list_all P (evs1 @ evs2)"
    by simp
  then show ?thesis unfolding extends_def by blast
qed


lemma extends_emit: "P e \<Longrightarrow> extends P w (emit e w)"
  by (simp add: extends_def emit_def)

lemma extends_emit_after: "extends P w w1 \<Longrightarrow> P e \<Longrightarrow> extends P w (emit e w1)"
  by (rule extends_trans [OF _ extends_emit])
































section \<open>A received file whose hash does not match\<close>





section \<open>receiver.py: the disk space check of receive_directory\<close>

text \<open>
  \<^verbatim>\<open>if free_space < required_space * 1.1:\<close> multiplies a Python \<^verbatim>\<open>int\<close> by the
  \<^verbatim>\<open>float\<close> literal \<^verbatim>\<open>1.1\<close>. The integer is converted to a double (rounded to 53
  significant bits, ties to even; \<^verbatim>\<open>OverflowError\<close> when the result would not be finite),
  the product of the two doubles is rounded the same way (infinite when too large), and
  the integer \<^verbatim>\<open>free_space\<close> is compared with the resulting double exactly.

  The double nearest to 1.1 is \<open>4953959590107546 / 2 ^ 52\<close>. A non-negative double is
  modelled by the natural number that is its value, or its value times \<open>2 ^ 52\<close> after
  the multiplication; no number here is small enough to be subnormal.
\<close>

fun bitlen :: "nat \<Rightarrow> nat" where
  "bitlen n = (if n = 0 then 0 else Suc (bitlen (n div 2)))"

declare bitlen.simps [simp del]

text \<open>Rounding to 53 significant bits, to nearest, ties to even.\<close>

definition round53 :: "nat \<Rightarrow> nat" where
  "round53 p =
     (let s = bitlen p - 53; q = p div 2 ^ s; r = p mod 2 ^ s
      in if 2 ^ s < 2 * r \<or> (2 * r = 2 ^ s \<and> odd q) then (q + 1) * 2 ^ s else q * 2 ^ s)"

text \<open>
  \<open>insufficient free required\<close> is the value of
  \<^verbatim>\<open>free_space < required_space * 1.1\<close>, or the \<^verbatim>\<open>OverflowError\<close> of the conversion.
\<close>

definition insufficient :: "nat \<Rightarrow> nat \<Rightarrow> exn + bool" where
  "insufficient free required =
     (if 2 ^ 1024 \<le> round53 required then
        Inl (Exception ''int too large to convert to float'')
      else
        (let product = round53 (round53 required * 4953959590107546)
         in Inr (2 ^ 1076 \<le> product \<or> free * 2 ^ 52 < product)))"

text \<open>
  \<^verbatim>\<open>utils.get_disk_usage\<close>, by its outcomes: it makes sure of the directory (and goes on
  when that fails) and returns the usage, of which the caller reads the free bytes, or
  \<^verbatim>\<open>None\<close>.
\<close>

definition get_disk_usage :: "path \<Rightarrow> world \<Rightarrow> nat option \<times> world" where
  "get_disk_usage p w =
     (let w1 = snd (ensure_directory p w)
      in if faulty (OpDiskUsage p) w1 then (None, emit (EvFs (OpDiskUsage p) False) w1)
         else (free_space w1, emit (EvFs (OpDiskUsage p) True) w1))"

text \<open>
  The first \<^verbatim>\<open>try\<close> block of \<^verbatim>\<open>receive_directory\<close>. The result \<open>True\<close> is its
  \<^verbatim>\<open>return\<close>: the transfer is rejected.
  \<^verbatim>\<open>
  try:
      ensure_directory(RECEIVED_DIR)
      disk_usage = get_disk_usage(RECEIVED_DIR)
      if disk_usage:
          total, used, free_space = disk_usage
          required_space = dir_info['total_size']
          if free_space < required_space * 1.1:
              ui.show_message(f"Insufficient disk space. ...", 'error')
              try:
                  client_socket.send(b'SPACE_ERROR')
              except:
                  pass
              return
          (shows the available space)
      else:
          (shows the warning)
  except Exception as e:
      (shows the warning)
  \<close>
\<close>

definition check_disk_space :: "config \<Rightarrow> nat \<Rightarrow> world \<Rightarrow> bool \<times> world" where
  "check_disk_space cfg total_size w =
     (case ensure_directory (RECEIVED_DIR cfg) w of
        (Inl e, w1) \<Rightarrow> (False, emit (EvUi CouldNotVerifyDiskSpace) w1)
      | (Inr u, w1) \<Rightarrow>
          (case get_disk_usage (RECEIVED_DIR cfg) w1 of
             (None, w2) \<Rightarrow> (False, emit (EvUi CouldNotVerifyDiskSpace) w2)
           | (Some free, w2) \<Rightarrow>
               (case insufficient free total_size of
                  Inl e \<Rightarrow> (False, emit (EvUi CouldNotVerifyDiskSpace) w2)
                | Inr reject \<Rightarrow>
                    if reject then
                      (True, snd (sock_send ''SPACE_ERROR'' (emit (EvUi InsufficientDiskSpace) w2)))
                    else (False, w2))))"

section \<open>Properties of the disk space check\<close>

lemma bitlen_0 [simp]: "bitlen 0 = 0"
  by (simp add: bitlen.simps)

lemma bitlen_lower: "0 < n \<Longrightarrow> 2 ^ (bitlen n - 1) \<le> n"
proof (induction n rule: bitlen.induct)
  case (1 n)
  show ?case
  proof (cases "n div 2 = 0")
    case True
    with "1.prems" show ?thesis
      by (simp add: bitlen.simps [of n] bitlen.simps [of 0])
  next
    case False
    with "1.IH" "1.prems" have ih: "2 ^ (bitlen (n div 2) - 1) \<le> n div 2" by simp
    from False have pos: "0 < bitlen (n div 2)"
      by (simp add: bitlen.simps [of "n div 2"])
    then have "(2::nat) ^ bitlen (n div 2) = 2 * 2 ^ (bitlen (n div 2) - 1)"
      by (cases "bitlen (n div 2)") simp_all
    with ih have "(2::nat) ^ bitlen (n div 2) \<le> 2 * (n div 2)" by simp
    also have "\<dots> \<le> n" by simp
    finally show ?thesis
      using "1.prems" by (simp add: bitlen.simps [of n])
  qed
qed

lemma bitlen_le: "n < 2 ^ k \<Longrightarrow> bitlen n \<le> k"
proof (induction k arbitrary: n)
  case 0
  then show ?case by (simp add: bitlen.simps [of n])
next
  case (Suc k)
  then have "n div 2 < 2 ^ k" by simp
  from Suc.IH [OF this] show ?case by (simp add: bitlen.simps [of n])
qed

lemma round53_exact: "n < 2 ^ 53 \<Longrightarrow> round53 n = n"
  using bitlen_le [of n 53] by (simp add: round53_def)

lemma round53_bounds:
  "round53 p * 2 ^ 53 \<le> p * (2 ^ 53 + 1) \<and> p * (2 ^ 53 - 1) \<le> round53 p * 2 ^ 53"
proof (cases "bitlen p \<le> 53")
  case True
  then have "round53 p = p" by (simp add: round53_def)
  then show ?thesis by simp
next
  case False
  define s where "s = bitlen p - 53"
  define e :: nat where "e = 2 ^ s"
  define r where "r = p mod e"
  define a where "a = (p div e) * e"
  from False have bl: "bitlen p - 1 = 52 + s" by (simp add: s_def)
  from False have "0 < p" by (cases "p = 0") (simp_all add: bitlen.simps [of p])
  from bitlen_lower [OF this] bl have "(2::nat) ^ (52 + s) \<le> p" by simp
  then have big: "e * 2 ^ 52 \<le> p" by (simp add: e_def power_add mult.commute)
  have p: "p = a + r" by (simp add: a_def r_def)
  have "0 < e" by (simp add: e_def)
  then have rl: "r < e" by (simp add: r_def)
  have R: "round53 p = (if e < 2 * r \<or> (2 * r = e \<and> odd (p div e)) then a + e else a)"
    by (simp add: round53_def Let_def s_def [symmetric] e_def [symmetric] r_def a_def
        algebra_simps)
  show ?thesis
  proof (cases "e < 2 * r \<or> (2 * r = e \<and> odd (p div e))")
    case True
    with R have "round53 p = a + e" by simp
    moreover from True have "e \<le> 2 * r" by auto
    ultimately show ?thesis using p rl big by simp
  next
    case False
    with R have "round53 p = a" by simp
    moreover from False have "2 * r \<le> e" by auto
    ultimately show ?thesis using p rl big by simp
  qed
qed

lemma insufficient_product:
  assumes n: "n < 2 ^ 48"
  shows "insufficient free n = Inr (free * 2 ^ 52 < round53 (n * 4953959590107546))"
    and "round53 (n * 4953959590107546) * 2 ^ 53 \<le> n * 4953959590107546 * (2 ^ 53 + 1)"
    and "n * 4953959590107546 * (2 ^ 53 - 1) \<le> round53 (n * 4953959590107546) * 2 ^ 53"
proof -
  let ?p = "n * 4953959590107546"
  from n have ex: "round53 n = n" by (simp add: round53_exact)
  from round53_bounds [of ?p]
  show b1: "round53 ?p * 2 ^ 53 \<le> ?p * (2 ^ 53 + 1)"
    and b2: "?p * (2 ^ 53 - 1) \<le> round53 ?p * 2 ^ 53"
    by blast+
  from b1 n have "round53 ?p < 2 ^ 102" by simp
  also have "(2::nat) ^ 102 \<le> 2 ^ 1076" by (rule power_increasing) simp_all
  finally have small: "\<not> 2 ^ 1076 \<le> round53 ?p" by simp
  from n have "n < 2 ^ 1024"
    by (rule less_le_trans) (rule power_increasing, simp_all)
  with ex small show "insufficient free n = Inr (free * 2 ^ 52 < round53 ?p)"
    by (simp add: insufficient_def Let_def del: power_numeral)
qed

lemma insufficient_below:
  assumes "n < 2 ^ 48" and "10 * free < 11 * n"
  shows "insufficient free n = Inr True"
  using insufficient_product(1) [OF assms(1), of free]
    insufficient_product(2,3) [OF assms(1)] assms by simp

lemma insufficient_above:
  assumes "n < 2 ^ 48" and "11 * n < 10 * free"
  shows "insufficient free n = Inr False"
  using insufficient_product(1) [OF assms(1), of free]
    insufficient_product(2,3) [OF assms(1)] assms by simp

section \<open>receiver.py: receive_directory\<close>

text \<open>More of the file system: directories made, emptied and moved.\<close>

definition under :: "path \<Rightarrow> path \<Rightarrow> bool" where
  "under d p = (take (length d + 1) p = d @ ''/'')"

definition mkdtemp :: "path \<Rightarrow> string \<Rightarrow> string \<Rightarrow> world \<Rightarrow> (exn + path) \<times> world" where
  "mkdtemp dir pre suf w =
     (if faulty (OpMkdtemp dir) w then
        (Inl (OSError None ''mkdtemp failed''), emit (EvFs (OpMkdtemp dir) False) w)
      else
        (case filter (\<lambda>p. \<not> path_exists p w)
                (map (\<lambda>r. path_join dir (pre @ r @ suf)) (tmp_names w)) of
           [] \<Rightarrow>
             (Inl (OSError (Some 17) ''No usable temporary directory name found''),
              emit (EvFs (OpMkdtemp dir) False) w)
         | p # _ \<Rightarrow> (Inr p, emit (EvFs (OpMkdtemp p) True) (w\<lparr>dirs := p # dirs w\<rparr>))))"

text \<open>\<^verbatim>\<open>open(file_path, 'wb')\<close>: the file is there and empty afterwards.\<close>

definition file_open_wb :: "path \<Rightarrow> world \<Rightarrow> (exn + unit) \<times> world" where
  "file_open_wb p w =
     (if faulty (OpOpen p) w \<or> p \<in> set (dirs w) then
        (Inl (OSError None ''open failed''), emit (EvFs (OpOpen p) False) w)
      else (Inr (), emit (EvFs (OpOpen p) True) (w\<lparr>files := (files w)(p \<mapsto> [])\<rparr>)))"

definition getsize :: "path \<Rightarrow> world \<Rightarrow> (exn + nat) \<times> world" where
  "getsize p w =
     (case (if faulty (OpGetsize p) w then None else files w p) of
        None \<Rightarrow> (Inl (OSError (Some 2) ''No such file or directory''),
                 emit (EvFs (OpGetsize p) False) w)
      | Some content \<Rightarrow> (Inr (length content), emit (EvGetsize p (length content)) w))"

definition rmtree :: "path \<Rightarrow> world \<Rightarrow> (exn + unit) \<times> world" where
  "rmtree d w =
     (if faulty (OpRmtree d) w \<or> d \<notin> set (dirs w) then
        (Inl (OSError None ''rmtree failed''), emit (EvFs (OpRmtree d) False) w)
      else
        (Inr (),
         emit (EvFs (OpRmtree d) True)
           (w\<lparr>files := (\<lambda>p. if under d p then None else files w p),
              dirs := filter (\<lambda>q. q \<noteq> d \<and> \<not> under d q) (dirs w)\<rparr>)))"

text \<open>
  \<^verbatim>\<open>shutil.move(src, dst)\<close> of a directory: a rename of the tree when nothing is at
  \<open>dst\<close>; into \<open>dst\<close> under its own name when \<open>dst\<close> is a directory.
\<close>

definition move_tree :: "path \<Rightarrow> path \<Rightarrow> world \<Rightarrow> (exn + unit) \<times> world" where
  "move_tree src dst w =
     (let real_dst = (if dst \<in> set (dirs w) then path_join dst (basename src) else dst) in
      if faulty (OpMove src dst) w \<or> src \<notin> set (dirs w) \<or> path_exists real_dst w then
        (Inl (OSError None ''move failed''), emit (EvFs (OpMove src dst) False) w)
      else
        (Inr (),
         emit (EvFs (OpMove src real_dst) True)
           (w\<lparr>files := (\<lambda>p. if under real_dst p then files w (src @ drop (length real_dst) p)
                            else if under src p then None else files w p),
              dirs := map (\<lambda>q. if q = src then real_dst
                                else if under src q then real_dst @ drop (length src) q else q)
                        (dirs w)\<rparr>)))"

text \<open>
  The \<^verbatim>\<open>except\<close> clauses around one \<^verbatim>\<open>recv\<close> and \<^verbatim>\<open>write\<close> of the entry loop.
  \<^verbatim>\<open>socket.error\<close> is \<^verbatim>\<open>OSError\<close>, so the second clause takes every \<^verbatim>\<open>OSError\<close>
  that is no timeout, and the third clause (\<^verbatim>\<open>except OSError\<close>) is never reached.
  \<^verbatim>\<open>
  except socket.timeout:
      raise socket.timeout(f"Timeout receiving ...")
  except socket.error as e:
      error_code = getattr(e, 'winerror', getattr(e, 'errno', 'unknown'))
      if error_code == 10054:
          raise Exception(f"Sender forcibly closed connection during ...")
      else:
          raise socket.error(f"Network error receiving ...")
  \<close>
\<close>

definition reraise_in_entry :: "exn \<Rightarrow> exn" where
  "reraise_in_entry e =
     (if is_timeout e then SocketTimeout ''Timeout receiving''
      else if is_oserror e then
        (if error_code e = Some 10054 then Exception ''Sender forcibly closed connection''
         else OSError None ''Network error receiving'')
      else e)"

text \<open>
  \<^verbatim>\<open>
  while file_received < file_size:
      remaining = file_size - file_received
      chunk_size = min(BUFFER_SIZE, remaining)
      try:
          client_socket.settimeout(30)
          data = client_socket.recv(chunk_size)
          if not data:
              raise Exception(f"Connection lost during ...")
          f.write(data)
          file_received += len(data)
          ...
      (the except clauses)
  \<close>
\<close>

function recv_entry_loop :: "config \<Rightarrow> path \<Rightarrow> nat \<Rightarrow> nat \<Rightarrow> world \<Rightarrow> (exn + unit) \<times> world" where
  "recv_entry_loop cfg file_path file_size file_received w =
     (if file_received < file_size then
        (case sock_recv (min (BUFFER_SIZE cfg) (file_size - file_received))
                (sock_settimeout (Some 30) w) of
           (Inl e, w1) \<Rightarrow> (Inl (reraise_in_entry e), w1)
         | (Inr data, w1) \<Rightarrow>
             if data = [] then (Inl (Exception ''Connection lost during transfer''), w1)
             else
               (case file_write file_path file_received data w1 of
                  (Inl e, w2) \<Rightarrow> (Inl (reraise_in_entry e), w2)
                | (Inr u, w2) \<Rightarrow>
                    recv_entry_loop cfg file_path file_size (file_received + length data) w2))
      else (Inr (), w))"
  by pat_completeness auto
termination
  by (relation "measure (\<lambda>(cfg, file_path, file_size, file_received, w). file_size - file_received)")
    (auto simp: neq_Nil_conv)

declare recv_entry_loop.simps [simp del]

text \<open>
  One entry, inside the \<^verbatim>\<open>try\<close> that reports the entry on failure:
  \<^verbatim>\<open>
  with open(file_path, 'wb') as f:
      (the entry loop)
  progress.update(received_total)
  actual_size = os.path.getsize(file_path)
  if actual_size != file_info['size']:
      raise Exception(f"Size mismatch for ...")
  hash_valid = True
  if 'hash' in file_info and not SKIP_HASH_VERIFICATION:
      hash_valid = _verify_file_hash(file_path, file_info['hash'], failed_validations, validation_lock, ui)
  (shows the result of the hash check)
  try:
      client_socket.settimeout(10)
      client_socket.send(b'ACK2')
      files_completed += 1
  except Exception as e:
      raise Exception(f"Failed to send acknowledgment for ...")
  \<close>
\<close>

definition receive_entry_try :: "config \<Rightarrow> path \<Rightarrow> file_entry \<Rightarrow> world \<Rightarrow> (exn + unit) \<times> world" where
  "receive_entry_try cfg file_path file_info w =
     (case file_open_wb file_path w of
        (Inl e, w1) \<Rightarrow> (Inl e, w1)
      | (Inr u, w1) \<Rightarrow>
        (case recv_entry_loop cfg file_path (fe_size file_info) 0 w1 of
           (Inl e, w2) \<Rightarrow> (Inl e, w2)
         | (Inr u, w2) \<Rightarrow>
           (case getsize file_path w2 of
              (Inl e, w3) \<Rightarrow> (Inl e, w3)
            | (Inr actual_size, w3) \<Rightarrow>
                if actual_size \<noteq> fe_size file_info then (Inl (Exception ''Size mismatch''), w3)
                else
                  (case (case fe_hash file_info of
                           None \<Rightarrow> (Inr True, w3)
                         | Some h \<Rightarrow>
                             if SKIP_HASH_VERIFICATION cfg then (Inr True, w3)
                             else verify_file_hash cfg file_path h w3) of
                     (Inl e, w4) \<Rightarrow> (Inl e, w4)
                   | (Inr hash_valid, w4) \<Rightarrow>
                       (case sock_send ''ACK2'' (sock_settimeout (Some 10) w4) of
                          (Inl e, w5) \<Rightarrow> (Inl (Exception ''Failed to send acknowledgment''), w5)
                        | (Inr u, w5) \<Rightarrow> (Inr (), w5))))))"

text \<open>
  The body of the \<^verbatim>\<open>for\<close> loop for entry number \<open>i\<close> (counted from 1):
  \<^verbatim>\<open>
  file_path = os.path.join(temp_dir, file_info['path'])
  try:
      ensure_directory(os.path.dirname(file_path))
  except Exception as e:
      raise Exception(f"Failed to create directory structure for ...")
  try:
      (the entry)
  except Exception as e:
      ui.show_message(f"Error receiving ... (completed .../... files): {e}", 'error')
      raise
  \<close>
\<close>

definition receive_entry :: "config \<Rightarrow> path \<Rightarrow> nat \<Rightarrow> file_entry \<Rightarrow> world \<Rightarrow> (exn + unit) \<times> world" where
  "receive_entry cfg temp_dir i file_info w =
     (case ensure_directory (dirname (path_join temp_dir (fe_path file_info))) w of
        (Inl e, w1) \<Rightarrow> (Inl (Exception ''Failed to create directory structure''), w1)
      | (Inr u, w1) \<Rightarrow>
        (case receive_entry_try cfg (path_join temp_dir (fe_path file_info)) file_info w1 of
           (Inl e, w2) \<Rightarrow> (Inl e, emit (EvUi (ErrorReceivingEntry i)) w2)
         | (Inr u, w2) \<Rightarrow> (Inr (), w2)))"

text \<open>\<^verbatim>\<open>for i, file_info in enumerate(dir_info['files'], 1):\<close> in manifest order.\<close>

fun receive_entries :: "config \<Rightarrow> path \<Rightarrow> nat \<Rightarrow> file_entry list \<Rightarrow> world \<Rightarrow> (exn + unit) \<times> world" where
  "receive_entries cfg temp_dir i [] w = (Inr (), w)"
| "receive_entries cfg temp_dir i (file_info # rest) w =
     (case receive_entry cfg temp_dir i file_info w of
        (Inl e, w1) \<Rightarrow> (Inl e, w1)
      | (Inr u, w1) \<Rightarrow> receive_entries cfg temp_dir (Suc i) rest w1)"

text \<open>
  The second \<^verbatim>\<open>try\<close> block of \<^verbatim>\<open>receive_directory\<close>, with the value of the variable
  \<^verbatim>\<open>temp_dir\<close> when the block is left.
  \<^verbatim>\<open>
  temp_dir = tempfile.mkdtemp(dir=RECEIVED_DIR, prefix=f".{dir_info['name']}_", suffix=".tmp")
  ...
  (the for loop)
  try:
      if os.path.exists(download_dir):
          shutil.rmtree(download_dir)
      shutil.move(temp_dir, download_dir)
      temp_dir = None
  except Exception as e:
      raise Exception(f"Failed to finalize directory move: {e}")
  try:
      client_socket.settimeout(10)
      client_socket.send(b'DONE')
  except Exception as e:
      ui.show_message(f"Directory received successfully but failed to send final acknowledgment: {e}", 'warning')
      return
  ui.show_message(f"Directory received successfully: ...", 'success')
  \<close>
\<close>

definition finalize_directory :: "path \<Rightarrow> path \<Rightarrow> world \<Rightarrow> (exn + unit) \<times> world" where
  "finalize_directory temp_dir download_dir w =
     (case (if path_exists download_dir w then rmtree download_dir w else (Inr (), w)) of
        (Inl e, w1) \<Rightarrow> (Inl (Exception ''Failed to finalize directory move''), w1)
      | (Inr u, w1) \<Rightarrow>
        (case move_tree temp_dir download_dir w1 of
           (Inl e, w2) \<Rightarrow> (Inl (Exception ''Failed to finalize directory move''), w2)
         | (Inr u, w2) \<Rightarrow> (Inr (), w2)))"

definition receive_directory_try ::
  "config \<Rightarrow> metadata \<Rightarrow> string \<Rightarrow> world \<Rightarrow> (exn + unit) \<times> path option \<times> world" where
  "receive_directory_try cfg dir_info name w =
     (case mkdtemp (RECEIVED_DIR cfg) (''.'' @ name @ ''_'') ''.tmp'' w of
        (Inl e, w1) \<Rightarrow> (Inl e, None, w1)
      | (Inr temp_dir, w1) \<Rightarrow>
        (case m_files dir_info of
           None \<Rightarrow> (Inl (KeyError ''files''), Some temp_dir, w1)
         | Some entries \<Rightarrow>
           (case receive_entries cfg temp_dir 1 entries w1 of
              (Inl e, w2) \<Rightarrow> (Inl e, Some temp_dir, w2)
            | (Inr u, w2) \<Rightarrow>
              (case finalize_directory temp_dir (path_join (RECEIVED_DIR cfg) name) w2 of
                 (Inl e, w3) \<Rightarrow> (Inl e, Some temp_dir, w3)
               | (Inr u, w3) \<Rightarrow>
                 (case sock_send ''DONE'' (sock_settimeout (Some 10) w3) of
                    (Inl e, w4) \<Rightarrow> (Inr (), None, emit (EvUi DirectoryReceivedNoFinalAck) w4)
                  | (Inr u, w4) \<Rightarrow> (Inr (), None, emit (EvUi DirectoryReceived) w4))))))"

text \<open>
  The handlers and the \<^verbatim>\<open>finally\<close> clause of that block; none of the handlers raises.
  \<^verbatim>\<open>
  except socket.timeout as e:
      ui.show_message(f"Timeout during directory transfer: {e}", 'error')
      ...
  except OSError as e:
      (shows a disk space or file system error)
  except Exception as e:
      ui.show_message(f"Error receiving directory: {e}", 'error')
  finally:
      if temp_dir and os.path.exists(temp_dir):
          try:
              shutil.rmtree(temp_dir)
              ...
          except:
              pass
  \<close>
\<close>

definition receive_directory_transfer :: "config \<Rightarrow> metadata \<Rightarrow> string \<Rightarrow> world \<Rightarrow> world" where
  "receive_directory_transfer cfg dir_info name w =
     (case receive_directory_try cfg dir_info name w of
        (r, temp_dir, w1) \<Rightarrow>
          (let w2 = (case r of
                       Inr u \<Rightarrow> w1
                     | Inl e \<Rightarrow>
                         emit (EvUi (if is_timeout e then TimeoutDuringDirectory
                                     else if is_oserror e then FileSystemError
                                     else ErrorReceivingDirectory)) w1)
           in case temp_dir of
                None \<Rightarrow> w2
              | Some t \<Rightarrow> if t \<noteq> [] \<and> path_exists t w2 then snd (rmtree t w2) else w2))"

text \<open>
  \<^verbatim>\<open>
  def receive_directory(client_socket, dir_info, ui, failed_validations, validation_lock):
      download_dir = os.path.join(RECEIVED_DIR, dir_info['name'])
      temp_dir = None
      with ui_lock:
          ... dir_info['name'] ... dir_info['total_files'] ... dir_info['total_size'] ...
      (the disk space check)
      (the transfer)
  \<close>
\<close>

definition receive_directory :: "config \<Rightarrow> metadata \<Rightarrow> world \<Rightarrow> (exn + unit) \<times> world" where
  "receive_directory cfg dir_info w =
     (case m_name dir_info of
        None \<Rightarrow> (Inl (KeyError ''name''), w)
      | Some name \<Rightarrow>
        (case m_total_files dir_info of
           None \<Rightarrow> (Inl (KeyError ''total_files''), w)
         | Some total_files \<Rightarrow>
           (case m_total_size dir_info of
              None \<Rightarrow> (Inl (KeyError ''total_size''), w)
            | Some total_size \<Rightarrow>
              (case check_disk_space cfg total_size w of
                 (True, w1) \<Rightarrow> (Inr (), w1)
               | (False, w1) \<Rightarrow> (Inr (), receive_directory_transfer cfg dir_info name w1)))))"

section \<open>Properties of the disk space check in receive_directory\<close>

text \<open>The events of looking at the destination: making sure of it, asking its usage.\<close>

definition probe_event :: "event \<Rightarrow> bool" where
  "probe_event e =
     (case e of
        EvFs op ok \<Rightarrow> (case op of OpEnsureDir p \<Rightarrow> True | OpDiskUsage p \<Rightarrow> True | _ \<Rightarrow> False)
      | _ \<Rightarrow> False)"

lemma check_disk_space_known:
  assumes env: "\<not> faulty (OpEnsureDir (RECEIVED_DIR cfg)) w"
      "\<not> faulty (OpDiskUsage (RECEIVED_DIR cfg)) w" "free_space w = Some free"
  shows "\<exists>w2. extends probe_event w w2 \<and> files w2 = files w
          \<and> set (dirs w2) \<subseteq> insert (RECEIVED_DIR cfg) (set (dirs w))
          \<and> check_disk_space cfg required w =
              (case insufficient free required of
                 Inl e \<Rightarrow> (False, emit (EvUi CouldNotVerifyDiskSpace) w2)
               | Inr reject \<Rightarrow>
                   if reject then
                     (True, snd (sock_send ''SPACE_ERROR'' (emit (EvUi InsufficientDiskSpace) w2)))
                   else (False, w2))"
proof -
  let ?d = "RECEIVED_DIR cfg"
  obtain w1 where e1: "ensure_directory ?d w = (Inr (), w1)"
    and k1: "fs_faults w1 = fs_faults w" "free_space w1 = free_space w" "files w1 = files w"
      "set (dirs w1) \<subseteq> insert ?d (set (dirs w))" "extends probe_event w w1"
    using env(1)
    by (cases "?d = []")
      (auto simp: ensure_directory_def emit_def extends_def probe_event_def)
  from env k1 have nf: "\<not> faulty (OpEnsureDir ?d) w1" "\<not> faulty (OpDiskUsage ?d) w1"
    by (simp_all add: faulty_def)
  obtain w1' where e2: "ensure_directory ?d w1 = (Inr (), w1')"
    and k2: "fs_faults w1' = fs_faults w1" "free_space w1' = free_space w1" "files w1' = files w1"
      "set (dirs w1') \<subseteq> insert ?d (set (dirs w1))" "extends probe_event w1 w1'"
    using nf(1)
    by (cases "?d = []")
      (auto simp: ensure_directory_def emit_def extends_def probe_event_def)
  let ?w2 = "emit (EvFs (OpDiskUsage ?d) True) w1'"
  have g: "get_disk_usage ?d w1 = (Some free, ?w2)"
    using e2 k2 k1 nf env(3) by (simp add: get_disk_usage_def Let_def faulty_def)
  have "extends probe_event w1' ?w2"
    by (rule extends_emit) (simp add: probe_event_def)
  with k1 k2 have x: "extends probe_event w ?w2"
    by (blast intro: extends_trans)
  have f: "files ?w2 = files w" "set (dirs ?w2) \<subseteq> insert ?d (set (dirs w))"
    using k1 k2 by (auto simp: emit_def)
  have "check_disk_space cfg required w =
      (case insufficient free required of
         Inl e \<Rightarrow> (False, emit (EvUi CouldNotVerifyDiskSpace) ?w2)
       | Inr reject \<Rightarrow>
           if reject then
             (True, snd (sock_send ''SPACE_ERROR'' (emit (EvUi InsufficientDiskSpace) ?w2)))
           else (False, ?w2))"
    using e1 g by (simp add: check_disk_space_def)
  with x f show ?thesis by blast
qed

end
